theory Spec2Isabelle
  imports Main "HOL-Library.Word"
begin

section \<open>Host values: strings, numbers, the clock\<close>

text \<open>
  A JavaScript string is a sequence of 16-bit code units. File names, editor content
  and the generated default names are such sequences; an ASCII literal such as "a" is
  the one-element list \<open>[0x61]\<close>.
\<close>

type_synonym jsstring = "16 word list"

text \<open>
  \<open>String.prototype.trim\<close> removes the code units of the grammar's WhiteSpace and
  LineTerminator productions from both ends: TAB, LF, VT, FF, CR, SP, NBSP, the Unicode
  space separators and the byte order mark.
\<close>

definition isWhiteSpace :: "16 word \<Rightarrow> bool" where
  "isWhiteSpace u \<longleftrightarrow>
     u \<in> {0x0009, 0x000A, 0x000B, 0x000C, 0x000D, 0x0020, 0x00A0, 0x1680,
          0x2000, 0x2001, 0x2002, 0x2003, 0x2004, 0x2005, 0x2006, 0x2007,
          0x2008, 0x2009, 0x200A, 0x2028, 0x2029, 0x202F, 0x205F, 0x3000, 0xFEFF}"

definition trimStart :: "jsstring \<Rightarrow> jsstring" where
  "trimStart s = dropWhile isWhiteSpace s"

definition trimEnd :: "jsstring \<Rightarrow> jsstring" where
  "trimEnd s = rev (dropWhile isWhiteSpace (rev s))"

definition trim :: "jsstring \<Rightarrow> jsstring" where
  "trim s = trimEnd (trimStart s)"

text \<open>A name is blank when it is empty or made of white space only.\<close>

definition blank :: "jsstring \<Rightarrow> bool" where
  "blank s \<longleftrightarrow> list_all isWhiteSpace s"

text \<open>
  The decimal text of an integer, as a template literal renders the number returned by
  \<open>Date.prototype.getTime\<close> (an integer number of milliseconds, far below the
  magnitude at which a number prints with an exponent).
\<close>

fun digits :: "nat \<Rightarrow> jsstring" where
  "digits n = (if n < 10 then [of_nat (48 + n)]
               else digits (n div 10) @ [of_nat (48 + n mod 10)])"

declare digits.simps [simp del]

definition Number_toString :: "int \<Rightarrow> jsstring" where
  "Number_toString i = (if i < 0 then 0x2D # digits (nat (- i)) else digits (nat i))"

text \<open>The code units of an ASCII literal, for the property names the code meets.\<close>

definition js :: "string \<Rightarrow> jsstring" where
  "js s = map of_char s"

section \<open>Persisted data\<close>

text \<open>
  A stored file record: an object with the properties \<open>content\<close>, \<open>saveTime\<close>
  and \<open>lastOpenTime\<close>, each present (\<open>Some\<close>) or absent (\<open>None\<close>, read as
  \<open>undefined\<close>). \<open>save\<close> writes all three; a record copied from a value that has
  none of them carries only the property assigned to it. The two time stamps are
  ISO-8601 texts of instants; the model stores the instant (milliseconds since the
  epoch).
\<close>

record file_record =
  content :: "jsstring option"
  saveTime :: "int option"
  lastOpenTime :: "int option"

definition empty_object :: file_record where
  "empty_object = \<lparr>content = None, saveTime = None, lastOpenTime = None\<rparr>"

type_synonym file_store = "jsstring \<rightharpoonup> file_record"

text \<open>
  The text held under the key \<open>md_editor_files\<close>. \<open>JSON.parse\<close> and
  \<open>JSON.stringify\<close> belong to the host, so a text is represented by what the
  parser makes of it: the empty string, a text that is not JSON, or the JSON text of a
  name-to-record object (\<open>Serialized fs\<close> is \<open>JSON.stringify fs\<close>, which writes
  the own properties of \<open>fs\<close> and nothing of its prototype). JSON texts of any other
  shape are not represented. \<open>fs\<close> holds the own properties of the parsed object,
  \<open>__proto__\<close> included when the text has that key.
\<close>

datatype blob = EmptyText | Malformed | Serialized file_store

datatype exn = SyntaxError | QuotaExceededError

definition JSON_parse :: "blob \<Rightarrow> exn + file_store" where
  "JSON_parse t = (case t of
      EmptyText \<Rightarrow> Inl SyntaxError
    | Malformed \<Rightarrow> Inl SyntaxError
    | Serialized fs \<Rightarrow> Inr fs)"

definition JSON_stringify :: "file_store \<Rightarrow> blob" where
  "JSON_stringify fs = Serialized fs"

subsection \<open>Property access on the parsed object\<close>

text \<open>
  The parsed object is an ordinary object: its prototype is \<open>Object.prototype\<close>, and
  \<open>files[name]\<close> reads through it. These are the property names of
  \<open>Object.prototype\<close>; each reads as a function, and \<open>__proto__\<close> as the
  prototype object itself.
\<close>

definition Object_prototype :: "jsstring list" where
  "Object_prototype =
     [js ''constructor'', js ''__defineGetter__'', js ''__defineSetter__'',
      js ''hasOwnProperty'', js ''__lookupGetter__'', js ''__lookupSetter__'',
      js ''isPrototypeOf'', js ''propertyIsEnumerable'', js ''toString'', js ''valueOf'',
      js ''__proto__'', js ''toLocaleString'']"

text \<open>
  What \<open>files[name]\<close> evaluates to: an own record, a value inherited from
  \<open>Object.prototype\<close>, or \<open>undefined\<close>. Only \<open>undefined\<close> is falsy.
\<close>

datatype property = Undefined | Own file_record | Inherited

definition get_property :: "file_store \<Rightarrow> jsstring \<Rightarrow> property" where
  "get_property files name =
     (case files name of
        Some r \<Rightarrow> Own r
      | None \<Rightarrow> if name \<in> set Object_prototype then Inherited else Undefined)"

text \<open>
  \<open>{...v}\<close> copies the own enumerable properties of \<open>v\<close>: those of a record, and
  none of a function or of \<open>Object.prototype\<close>. \<open>v.content\<close> is the record's
  content, and \<open>undefined\<close> on the inherited values.
\<close>

definition truthy :: "property \<Rightarrow> bool" where
  "truthy v = (case v of Undefined \<Rightarrow> False | Own r \<Rightarrow> True | Inherited \<Rightarrow> True)"

definition spread :: "property \<Rightarrow> file_record" where
  "spread v = (case v of Own r \<Rightarrow> r | Inherited \<Rightarrow> empty_object | Undefined \<Rightarrow> empty_object)"

definition content_of :: "property \<Rightarrow> jsstring option" where
  "content_of v = (case v of Own r \<Rightarrow> content r | Inherited \<Rightarrow> None | Undefined \<Rightarrow> None)"

text \<open>
  \<open>files[name] = v\<close> creates or overwrites the own property \<open>name\<close>, except for
  the name \<open>__proto__\<close> when it is not an own property: the assignment then reaches
  the setter of \<open>Object.prototype\<close>, which replaces the prototype of \<open>files\<close> and
  adds no own property.
\<close>

definition put_property :: "file_store \<Rightarrow> jsstring \<Rightarrow> file_record \<Rightarrow> file_store" where
  "put_property files name v =
     (if name = js ''__proto__'' \<and> files name = None then files else files(name \<mapsto> v))"

text \<open>\<open>delete files[name]\<close> removes the own property, if there is one.\<close>

definition delete_property :: "file_store \<Rightarrow> jsstring \<Rightarrow> file_store" where
  "delete_property files name = files(name := None)"

section \<open>The host: storage, interval timers, clock, editor buffer\<close>

text \<open>
  \<open>storage\<close> is the item under \<open>md_editor_files\<close> (\<open>None\<close> when the key is
  missing); \<open>quota\<close> tells which texts the host accepts for it: \<open>getItem\<close>
  returns the item or \<open>null\<close> and cannot fail, \<open>setItem\<close> throws
  \<open>QuotaExceededError\<close> when the new value cannot be stored. \<open>timers\<close> are the live interval timers armed through \<open>setInterval\<close>
  for the manager's save callback, each with its period; handles are positive integers
  handed out in sequence. \<open>clock\<close> gives the time of each successive
  \<open>new Date()\<close>, \<open>reads\<close> counts them. \<open>editor_content\<close> is
  \<open>editorState.content.value\<close>, which the injected \<open>getContent\<close> returns.
\<close>

record world =
  storage :: "blob option"
  quota :: "blob \<Rightarrow> bool"
  timers :: "nat \<rightharpoonup> nat"
  timer_count :: nat
  clock :: "nat \<Rightarrow> int"
  reads :: nat
  editor_content :: jsstring

definition getItem :: "world \<Rightarrow> blob option" where
  "getItem w = storage w"

definition setItem :: "blob \<Rightarrow> world \<Rightarrow> exn + world" where
  "setItem t w = (if quota w t then Inr (w\<lparr>storage := Some t\<rparr>) else Inl QuotaExceededError)"

definition setInterval :: "nat \<Rightarrow> world \<Rightarrow> nat \<times> world" where
  "setInterval ms w =
     (let h = Suc (timer_count w)
      in (h, w\<lparr>timers := (timers w)(h \<mapsto> ms), timer_count := h\<rparr>))"

definition clearInterval :: "nat \<Rightarrow> world \<Rightarrow> world" where
  "clearInterval h w = w\<lparr>timers := (timers w)(h := None)\<rparr>"

definition new_Date :: "world \<Rightarrow> int \<times> world" where
  "new_Date w = (clock w (reads w), w\<lparr>reads := Suc (reads w)\<rparr>)"

definition getContent :: "world \<Rightarrow> jsstring" where
  "getContent w = editor_content w"

text \<open>
  Modelled from the spec: \<open>editorLifecycle.updateContent\<close> (useEditorLifecycle.js is
  not among the sources). It loads the given text into the editor buffer, so that
  \<open>editorState.content.value\<close> is that text afterwards.
\<close>

definition updateContent :: "jsstring \<Rightarrow> world \<Rightarrow> world" where
  "updateContent s w = w\<lparr>editor_content := s\<rparr>"

section \<open>AutoSaveManager (src/core/editor/auto-save.js)\<close>

record manager =
  interval :: "nat option"
  saveInterval :: nat
  currentFileName :: "jsstring option"

text \<open>\<open>options.interval || 10000\<close>: a missing or zero interval gives ten seconds.\<close>

definition AutoSaveManager :: "nat option \<Rightarrow> manager" where
  "AutoSaveManager opt =
     \<lparr>interval = None,
      saveInterval = (case opt of None \<Rightarrow> 10000 | Some ms \<Rightarrow> if ms = 0 then 10000 else ms),
      currentFileName = None\<rparr>"

text \<open>The prefix of a generated name: the six code units before the time stamp.\<close>

definition untitled :: jsstring where
  "untitled = [0x672A, 0x547D, 0x540D, 0x6587, 0x4EF6, 0x005F]"

definition default_name :: "int \<Rightarrow> jsstring" where
  "default_name t = untitled @ Number_toString t"

text \<open>
  \<open>getFileName\<close>: \<open>!this.currentFileName\<close> holds for \<open>null\<close> and for the empty
  string; then a default name is generated from the clock and stored.
\<close>

definition getFileName :: "manager \<Rightarrow> world \<Rightarrow> jsstring \<times> manager \<times> world" where
  "getFileName m w =
     (case currentFileName m of
        Some n \<Rightarrow>
          if n \<noteq> [] then (n, m, w)
          else (let (t, w') = new_Date w; g = default_name t
                in (g, m\<lparr>currentFileName := Some g\<rparr>, w'))
      | None \<Rightarrow>
          (let (t, w') = new_Date w; g = default_name t
           in (g, m\<lparr>currentFileName := Some g\<rparr>, w')))"

text \<open>\<open>setFileName\<close>: \<open>name && name.trim()\<close> guards the assignment.\<close>

definition setFileName :: "jsstring \<Rightarrow> manager \<Rightarrow> manager" where
  "setFileName name m =
     (if name \<noteq> [] \<and> trim name \<noteq> [] then m\<lparr>currentFileName := Some (trim name)\<rparr> else m)"

text \<open>
  The read in \<open>save\<close>: \<open>JSON.parse(localStorage.getItem('md_editor_files') || '{}')\<close>.
  A missing item and the empty string are falsy and give the text \<open>{}\<close>.
\<close>

definition stored_files :: "world \<Rightarrow> exn + file_store" where
  "stored_files w =
     JSON_parse (case getItem w of
                   None \<Rightarrow> Serialized Map.empty
                 | Some EmptyText \<Rightarrow> Serialized Map.empty
                 | Some t \<Rightarrow> t)"

text \<open>
  \<open>save\<close>. Every call returns normally (\<open>Inr ()\<close>) or throws (\<open>Inl e\<close>); the
  manager and the host are returned as they are at that point. The log line reads the
  clock once more after the write.
\<close>

definition save :: "manager \<Rightarrow> world \<Rightarrow> (exn + unit) \<times> manager \<times> world" where
  "save m w =
     (let c = getContent w in
      if c = [] then (Inr (), m, w)
      else
        let (fileName, m1, w1) = getFileName m w;
            (t_save, w2) = new_Date w1
        in (case stored_files w2 of
              Inl e \<Rightarrow> (Inl e, m1, w2)
            | Inr files \<Rightarrow>
                (let (t_open, w3) = new_Date w2;
                     files' = put_property files fileName
                                \<lparr>content = Some c, saveTime = Some t_save,
                                 lastOpenTime = Some t_open\<rparr>
                 in (case setItem (JSON_stringify files') w3 of
                       Inl e \<Rightarrow> (Inl e, m1, w3)
                     | Inr w4 \<Rightarrow>
                         (let (t_log, w5) = new_Date w4 in (Inr (), m1, w5))))))"

text \<open>\<open>start\<close>: a handle is truthy when it is a non-zero number.\<close>

definition start :: "manager \<Rightarrow> world \<Rightarrow> (exn + unit) \<times> manager \<times> world" where
  "start m w =
     (let w0 = (case interval m of
                  Some h \<Rightarrow> if h \<noteq> 0 then clearInterval h w else w
                | None \<Rightarrow> w);
          (r, m1, w1) = save m w0
      in (case r of
            Inl e \<Rightarrow> (Inl e, m1, w1)
          | Inr u \<Rightarrow>
              (let (h', w2) = setInterval (saveInterval m1) w1
               in (Inr (), m1\<lparr>interval := Some h'\<rparr>, w2))))"

definition stop :: "manager \<Rightarrow> world \<Rightarrow> manager \<times> world" where
  "stop m w =
     (case interval m of
        Some h \<Rightarrow> if h \<noteq> 0 then (m\<lparr>interval := None\<rparr>, clearInterval h w) else (m, w)
      | None \<Rightarrow> (m, w))"

text \<open>
  One firing of the interval timer \<open>h\<close>: the host runs the callback
  \<open>() => this.save()\<close> if the timer is live. An exception leaving the callback is
  reported by the host and the interval stays scheduled.
\<close>

definition tick :: "nat \<Rightarrow> manager \<Rightarrow> world \<Rightarrow> manager \<times> world" where
  "tick h m w =
     (case timers w h of
        None \<Rightarrow> (m, w)
      | Some ms \<Rightarrow> (let (r, m', w') = save m w in (m', w')))"

section \<open>fileManager (useMarkdownEditor)\<close>

text \<open>
  The composable holds \<open>autoSaveManager.value\<close>, which is \<open>null\<close> until the editor
  is initialised: the functions below take it as \<open>manager option\<close>, and a call through
  \<open>?.\<close> is skipped on \<open>None\<close>.
\<close>

definition getSavedFiles :: "world \<Rightarrow> exn + file_store" where
  "getSavedFiles w =
     (case getItem w of
        None \<Rightarrow> Inr Map.empty
      | Some EmptyText \<Rightarrow> Inr Map.empty
      | Some t \<Rightarrow> JSON_parse t)"

definition createNewFile ::
  "jsstring option \<Rightarrow> manager option \<Rightarrow> world \<Rightarrow> (exn + jsstring) \<times> manager option \<times> world" where
  "createNewFile fileName am w =
     (let (timestamp, w1) = new_Date w;
          name = (case fileName of
                    Some n \<Rightarrow> if n \<noteq> [] then n else default_name timestamp
                  | None \<Rightarrow> default_name timestamp);
          w2 = updateContent [] w1
      in case am of
           None \<Rightarrow> (Inr name, None, w2)
         | Some m \<Rightarrow>
             (let m1 = setFileName name m;
                  (r, m2, w3) = save m1 w2
              in (case r of
                    Inl e \<Rightarrow> (Inl e, Some m2, w3)
                  | Inr u \<Rightarrow> (Inr name, Some m2, w3))))"

text \<open>
  Modelled from the spec: what \<open>updateContent\<close> loads when it is handed the
  \<open>content\<close> of a value that has none (\<open>undefined\<close>): the buffer is left empty.
\<close>

definition loaded :: "jsstring option \<Rightarrow> jsstring" where
  "loaded c = (case c of Some s \<Rightarrow> s | None \<Rightarrow> [])"

definition openFile ::
  "jsstring \<Rightarrow> manager option \<Rightarrow> world \<Rightarrow> (exn + unit) \<times> manager option \<times> world" where
  "openFile fileName am w =
     (case getSavedFiles w of
        Inl e \<Rightarrow> (Inl e, am, w)
      | Inr files \<Rightarrow>
          (let v = get_property files fileName
           in if truthy v
              then (Inr (), map_option (setFileName fileName) am,
                    updateContent (loaded (content_of v)) w)
              else (Inr (), am, w)))"

definition renameFile ::
  "jsstring \<Rightarrow> jsstring \<Rightarrow> manager option \<Rightarrow> world \<Rightarrow> (exn + bool) \<times> manager option \<times> world" where
  "renameFile oldName newName am w =
     (if oldName = newName then (Inr False, am, w)
      else case getSavedFiles w of
        Inl e \<Rightarrow> (Inl e, am, w)
      | Inr files \<Rightarrow>
          (if \<not> truthy (get_property files oldName) then (Inr False, am, w)
           else
             (let (t, w1) = new_Date w;
                  files1 = put_property files newName
                             ((spread (get_property files oldName))\<lparr>saveTime := Some t\<rparr>);
                  files2 = delete_property files1 oldName
              in (case setItem (JSON_stringify files2) w1 of
                    Inl e \<Rightarrow> (Inl e, am, w1)
                  | Inr w2 \<Rightarrow>
                      (case am of
                         None \<Rightarrow> (Inr True, None, w2)
                       | Some m \<Rightarrow>
                           (let (n, m1, w3) = getFileName m w2
                            in (Inr True,
                                Some (if n = oldName then setFileName newName m1 else m1),
                                w3)))))))"

definition deleteFile ::
  "jsstring \<Rightarrow> world \<Rightarrow> (exn + bool) \<times> world" where
  "deleteFile fileName w =
     (case getSavedFiles w of
        Inl e \<Rightarrow> (Inl e, w)
      | Inr files \<Rightarrow>
          (if truthy (get_property files fileName)
           then (case setItem (JSON_stringify (delete_property files fileName)) w of
                   Inl e \<Rightarrow> (Inl e, w)
                 | Inr w' \<Rightarrow> (Inr True, w'))
           else (Inr False, w)))"

section \<open>Sequences of calls on one manager\<close>

text \<open>
  Everything that can happen to a manager and its host between construction and
  teardown: its own methods, a firing of a timer, the fileManager functions of the
  composable that holds it, the user editing the buffer, the stored item being replaced
  from outside, and the host's capacity changing. A call that throws leaves the state as
  it is at the throw.
\<close>

datatype call =
    Start | Stop | Save | GetFileName | SetFileName jsstring | Tick nat
  | CreateNewFile "jsstring option" | OpenFile jsstring | RenameFile jsstring jsstring
  | DeleteFile jsstring | Edit jsstring | Overwrite "blob option"
  | Capacity "blob \<Rightarrow> bool"

definition bound :: "manager \<Rightarrow> 'r \<times> manager option \<times> world \<Rightarrow> manager \<times> world" where
  "bound m res = (case res of (r, am, w) \<Rightarrow> (case am of Some m' \<Rightarrow> (m', w) | None \<Rightarrow> (m, w)))"

fun exec :: "call \<Rightarrow> manager \<times> world \<Rightarrow> manager \<times> world" where
  "exec Start (m, w) = snd (start m w)"
| "exec Stop (m, w) = stop m w"
| "exec Save (m, w) = snd (save m w)"
| "exec GetFileName (m, w) = snd (getFileName m w)"
| "exec (SetFileName n) (m, w) = (setFileName n m, w)"
| "exec (Tick h) (m, w) = tick h m w"
| "exec (CreateNewFile fn) (m, w) = bound m (createNewFile fn (Some m) w)"
| "exec (OpenFile n) (m, w) = bound m (openFile n (Some m) w)"
| "exec (RenameFile a b) (m, w) = bound m (renameFile a b (Some m) w)"
| "exec (DeleteFile n) (m, w) = (m, snd (deleteFile n w))"
| "exec (Edit s) (m, w) = (m, updateContent s w)"
| "exec (Overwrite b) (m, w) = (m, w\<lparr>storage := b\<rparr>)"
| "exec (Capacity q) (m, w) = (m, w\<lparr>quota := q\<rparr>)"

fun run :: "call list \<Rightarrow> manager \<times> world \<Rightarrow> manager \<times> world" where
  "run [] s = s"
| "run (c # cs) s = run cs (exec c s)"

section \<open>Invariants and sample states\<close>

text \<open>The current file name is unset, or a name that is not blank.\<close>

definition fileName_ok :: "manager \<Rightarrow> bool" where
  "fileName_ok m = (case currentFileName m of None \<Rightarrow> True | Some n \<Rightarrow> \<not> blank n)"

text \<open>
  The stronger fact behind it: a name held by the manager is non-empty and has no white
  space at either end, so that \<open>setFileName\<close> applied to it binds the same name.
\<close>

definition fileName_trimmed :: "manager \<Rightarrow> bool" where
  "fileName_trimmed m =
     (case currentFileName m of None \<Rightarrow> True | Some n \<Rightarrow> n \<noteq> [] \<and> trim n = n)"

text \<open>
  Every live timer is the one whose handle the manager holds, and that handle is not 0
  (which \<open>setInterval\<close> never returns).
\<close>

definition timers_owned :: "manager \<times> world \<Rightarrow> bool" where
  "timers_owned s =
     (case s of (m, w) \<Rightarrow> dom (timers w) \<subseteq> set_option (interval m) \<and> interval m \<noteq> Some 0)"

text \<open>
  A host in which nothing is stored, every write is accepted, no timer is armed and the
  editor is empty; the clock starts at 1700000000000 ms and advances by one at each
  reading.
\<close>

definition fresh_world :: world where
  "fresh_world =
     \<lparr>storage = None, quota = (\<lambda>t. True), timers = Map.empty, timer_count = 0,
      clock = (\<lambda>k. 1700000000000 + int k), reads = 0, editor_content = []\<rparr>"

text \<open>The same host with the text "x" in the editor over a stored item that is not JSON.\<close>

definition corrupt_world :: world where
  "corrupt_world = fresh_world\<lparr>storage := Some Malformed, editor_content := [0x78]\<rparr>"

text \<open>A store with one file "a" whose content is "hello", and one with "a" and "b".\<close>

definition record_a :: file_record where
  "record_a = \<lparr>content = Some [0x68, 0x65, 0x6C, 0x6C, 0x6F], saveTime = Some 1600000000000,
               lastOpenTime = Some 1600000000001\<rparr>"

definition record_b :: file_record where
  "record_b = \<lparr>content = Some [0x62, 0x79, 0x65], saveTime = Some 1650000000000,
               lastOpenTime = Some 1650000000001\<rparr>"

definition world_a :: world where
  "world_a = fresh_world\<lparr>storage := Some (Serialized [ [0x61] \<mapsto> record_a])\<rparr>"

definition world_ab :: world where
  "world_ab =
     fresh_world\<lparr>storage := Some (Serialized [ [0x61] \<mapsto> record_a, [0x62] \<mapsto> record_b])\<rparr>"

text \<open>
  The host of the second store when its storage is full: it accepts no write. The text
  "x" is in the editor.
\<close>

definition full_world :: world where
  "full_world = world_ab\<lparr>quota := (\<lambda>t. False), editor_content := [0x78]\<rparr>"

text \<open>
  Both are instances of one scheme: a predicate that holds of the current file name
  whenever one is set.
\<close>

definition name_inv :: "(jsstring \<Rightarrow> bool) \<Rightarrow> manager \<Rightarrow> bool" where
  "name_inv Q m = (case currentFileName m of None \<Rightarrow> True | Some n \<Rightarrow> Q n)"

text \<open>
  The store \<open>renameFile\<close> writes back: \<open>newName\<close> assigned a copy of what
  \<open>files[oldName]\<close> reads, with \<open>saveTime\<close> set, then \<open>oldName\<close> deleted.
\<close>

definition renamed :: "file_store \<Rightarrow> jsstring \<Rightarrow> jsstring \<Rightarrow> int \<Rightarrow> file_store" where
  "renamed files oldName newName t =
     delete_property
       (put_property files newName ((spread (get_property files oldName))\<lparr>saveTime := Some t\<rparr>))
       oldName"

section \<open>Facts about trimming and generated names\<close>

lemma trimStart_Nil_iff: "trimStart s = [] \<longleftrightarrow> blank s"
  by (simp add: trimStart_def blank_def list_all_iff)

lemma trimEnd_Nil_iff: "trimEnd s = [] \<longleftrightarrow> blank s"
  by (simp add: trimEnd_def blank_def list_all_iff)

lemma blank_trimStart: "blank (trimStart s) \<longleftrightarrow> blank s"
  by (simp add: trimStart_Nil_iff [symmetric]) (simp add: trimStart_def)

lemma trim_Nil_iff: "trim s = [] \<longleftrightarrow> blank s"
  by (simp add: trim_def trimEnd_Nil_iff blank_trimStart)

lemma hd_trimStart: "trimStart s \<noteq> [] \<Longrightarrow> \<not> isWhiteSpace (hd (trimStart s))"
  unfolding trimStart_def by (rule hd_dropWhile)

lemma last_trimEnd: "trimEnd s \<noteq> [] \<Longrightarrow> \<not> isWhiteSpace (last (trimEnd s))"
  unfolding trimEnd_def by (simp add: last_rev hd_dropWhile)

lemma trimStart_id: "s \<noteq> [] \<Longrightarrow> \<not> isWhiteSpace (hd s) \<Longrightarrow> trimStart s = s"
  by (cases s) (simp_all add: trimStart_def)

lemma trimEnd_id: "s \<noteq> [] \<Longrightarrow> \<not> isWhiteSpace (last s) \<Longrightarrow> trimEnd s = s"
  by (cases s rule: rev_cases) (simp_all add: trimEnd_def)

lemma trimEnd_prefix: "trimEnd s @ rev (takeWhile isWhiteSpace (rev s)) = s"
proof -
  have "rev (takeWhile isWhiteSpace (rev s) @ dropWhile isWhiteSpace (rev s)) = s"
    by (simp only: takeWhile_dropWhile_id rev_rev_ident)
  then show ?thesis
    by (simp only: rev_append trimEnd_def)
qed

lemma hd_trimEnd: "trimEnd s \<noteq> [] \<Longrightarrow> hd (trimEnd s) = hd s"
  using trimEnd_prefix [of s] by (metis hd_append2)

lemma trim_ends:
  assumes "trim s \<noteq> []"
  shows "\<not> isWhiteSpace (hd (trim s))" and "\<not> isWhiteSpace (last (trim s))"
proof -
  from assms have ne: "trimStart s \<noteq> []"
    by (auto simp: trim_def trimEnd_def)
  from assms have "hd (trim s) = hd (trimStart s)"
    unfolding trim_def by (rule hd_trimEnd)
  with ne show "\<not> isWhiteSpace (hd (trim s))"
    by (simp add: hd_trimStart)
  from assms show "\<not> isWhiteSpace (last (trim s))"
    unfolding trim_def by (rule last_trimEnd)
qed

lemma trim_id: "s \<noteq> [] \<Longrightarrow> \<not> isWhiteSpace (hd s) \<Longrightarrow> \<not> isWhiteSpace (last s) \<Longrightarrow> trim s = s"
  by (simp add: trim_def trimStart_id trimEnd_id)

lemma trim_Nil: "trim [] = []"
  by (simp add: trim_def trimStart_def trimEnd_def)

lemma trim_idem: "trim (trim s) = trim s"
proof (cases "trim s = []")
  case True
  then show ?thesis by (simp only: trim_Nil)
next
  case False
  then show ?thesis by (simp add: trim_id trim_ends)
qed

lemma not_blank_trim: "\<not> blank s \<Longrightarrow> \<not> blank (trim s)"
  by (simp add: trim_Nil_iff [symmetric] trim_idem)

lemma digits_not_Nil: "digits n \<noteq> []"
  by (subst digits.simps) simp

lemma digit_not_space: "d < 10 \<Longrightarrow> \<not> isWhiteSpace (48 + of_nat d)"
proof -
  assume "d < 10"
  then have "d = 0 \<or> d = 1 \<or> d = 2 \<or> d = 3 \<or> d = 4 \<or> d = 5 \<or> d = 6 \<or> d = 7 \<or> d = 8 \<or> d = 9"
    by arith
  then show ?thesis
    by (elim disjE) (simp_all add: isWhiteSpace_def)
qed

lemma last_digits: "last (digits n) = of_nat (48 + n mod 10)"
  by (subst digits.simps) simp

lemma default_name_trim: "trim (default_name t) = default_name t"
proof (rule trim_id)
  show "default_name t \<noteq> []" by (simp add: default_name_def untitled_def)
  show "\<not> isWhiteSpace (hd (default_name t))"
    by (simp add: default_name_def untitled_def isWhiteSpace_def)
  have "last (default_name t) = last (Number_toString t)"
    by (simp add: default_name_def Number_toString_def digits_not_Nil)
  also have "\<dots> = of_nat (48 + nat \<bar>t\<bar> mod 10)"
    by (simp add: Number_toString_def digits_not_Nil last_digits) 
  finally show "\<not> isWhiteSpace (last (default_name t))"
    by (simp add: digit_not_space)
qed

section \<open>Facts about the manager's methods\<close>

lemma getFileName_set:
  "currentFileName m = Some n \<Longrightarrow> n \<noteq> [] \<Longrightarrow> getFileName m w = (n, m, w)"
  by (simp add: getFileName_def)

lemma getFileName_unset:
  "currentFileName m = None \<Longrightarrow>
   getFileName m w =
     (default_name (clock w (reads w)),
      m\<lparr>currentFileName := Some (default_name (clock w (reads w)))\<rparr>,
      w\<lparr>reads := Suc (reads w)\<rparr>)"
  by (simp add: getFileName_def new_Date_def Let_def)

lemma getFileName_frame:
  "getFileName m w = (n, m', w') \<Longrightarrow>
   interval m' = interval m \<and> saveInterval m' = saveInterval m \<and> storage w' = storage w \<and>
   quota w' = quota w \<and> timers w' = timers w \<and> timer_count w' = timer_count w \<and>
   editor_content w' = editor_content w \<and> clock w' = clock w"
  by (auto simp: getFileName_def new_Date_def Let_def split: option.splits if_splits)

lemma getSavedFiles_stored_files: "getSavedFiles w = stored_files w"
  by (simp add: getSavedFiles_def stored_files_def JSON_parse_def split: option.splits blob.splits)

lemma save_empty: "getContent w = [] \<Longrightarrow> save m w = (Inr (), m, w)"
  by (simp add: save_def)

lemma save_throws:
  assumes "getContent w \<noteq> []" and "stored_files w = Inl e"
    and "getFileName m w = (n, m1, w1)"
  shows "save m w = (Inl e, m1, w1\<lparr>reads := Suc (reads w1)\<rparr>)"
proof -
  from assms(3) have "storage w1 = storage w" by (simp add: getFileName_frame)
  then have "stored_files (w1\<lparr>reads := Suc (reads w1)\<rparr>) = Inl e"
    using assms(2) by (simp add: stored_files_def getItem_def)
  with assms(1,3) show ?thesis
    by (simp add: save_def new_Date_def)
qed

text \<open>The record \<open>save\<close> builds, and the text it hands to \<open>setItem\<close>.\<close>

lemma save_writes:
  assumes "getContent w = c" "c \<noteq> []" and "stored_files w = Inr files"
    and "getFileName m w = (n, m1, w1)"
    and "quota w (Serialized (put_property files n
          \<lparr>content = Some c, saveTime = Some (clock w1 (reads w1)),
           lastOpenTime = Some (clock w1 (Suc (reads w1)))\<rparr>))"
  shows "save m w =
    (Inr (), m1,
     w1\<lparr>reads := Suc (Suc (Suc (reads w1))),
        storage := Some (Serialized (put_property files n
          \<lparr>content = Some c, saveTime = Some (clock w1 (reads w1)),
           lastOpenTime = Some (clock w1 (Suc (reads w1)))\<rparr>))\<rparr>)"
proof -
  from assms(4) have fr: "storage w1 = storage w" "editor_content w1 = editor_content w"
      "quota w1 = quota w"
    by (simp_all add: getFileName_frame)
  then have "stored_files (w1\<lparr>reads := Suc (reads w1)\<rparr>) = Inr files"
    using assms(3) by (simp add: stored_files_def getItem_def)
  with assms(1,2,4,5) fr show ?thesis
    by (simp add: save_def new_Date_def setItem_def JSON_stringify_def getContent_def)
qed

lemma save_rejected:
  assumes "getContent w = c" "c \<noteq> []" and "stored_files w = Inr files"
    and "getFileName m w = (n, m1, w1)"
    and "\<not> quota w (Serialized (put_property files n
          \<lparr>content = Some c, saveTime = Some (clock w1 (reads w1)),
           lastOpenTime = Some (clock w1 (Suc (reads w1)))\<rparr>))"
  shows "save m w = (Inl QuotaExceededError, m1, w1\<lparr>reads := Suc (Suc (reads w1))\<rparr>)"
proof -
  from assms(4) have fr: "storage w1 = storage w" "editor_content w1 = editor_content w"
      "quota w1 = quota w"
    by (simp_all add: getFileName_frame)
  then have "stored_files (w1\<lparr>reads := Suc (reads w1)\<rparr>) = Inr files"
    using assms(3) by (simp add: stored_files_def getItem_def)
  with assms(1,2,4,5) fr show ?thesis
    by (simp add: save_def new_Date_def setItem_def JSON_stringify_def getContent_def)
qed

lemma save_frame:
  assumes "save m w = (r, m', w')"
  shows "interval m' = interval m \<and> saveInterval m' = saveInterval m \<and>
   quota w' = quota w \<and> timers w' = timers w \<and> timer_count w' = timer_count w \<and>
   editor_content w' = editor_content w \<and> clock w' = clock w"
proof (cases "getContent w = []")
  case True
  with assms show ?thesis by (simp add: save_empty)
next
  case False
  obtain n m1 w1 where g: "getFileName m w = (n, m1, w1)"
    by (cases "getFileName m w") auto
  note fr = getFileName_frame [OF g]
  show ?thesis
  proof (cases "stored_files w")
    case (Inl e)
    with False g assms fr show ?thesis by (auto simp: save_throws)
  next
    case (Inr files)
    let ?t = "Serialized (put_property files n
          \<lparr>content = Some (getContent w), saveTime = Some (clock w1 (reads w1)),
           lastOpenTime = Some (clock w1 (Suc (reads w1)))\<rparr>)"
    show ?thesis
    proof (cases "quota w ?t")
      case True
      from save_writes [OF refl False Inr g True] assms fr show ?thesis by auto
    next
      case no: False
      from save_rejected [OF refl False Inr g no] assms fr show ?thesis by auto
    qed
  qed
qed

text \<open>A save that throws has written nothing.\<close>

lemma save_failed_storage:
  assumes "save m w = (Inl e, m', w')"
  shows "storage w' = storage w"
proof (cases "getContent w = []")
  case True
  with assms show ?thesis by (simp add: save_empty)
next
  case False
  obtain n m1 w1 where g: "getFileName m w = (n, m1, w1)"
    by (cases "getFileName m w") auto
  note fr = getFileName_frame [OF g]
  show ?thesis
  proof (cases "stored_files w")
    case (Inl e)
    with False g assms fr show ?thesis by (auto simp: save_throws)
  next
    case (Inr files)
    let ?t = "Serialized (put_property files n
          \<lparr>content = Some (getContent w), saveTime = Some (clock w1 (reads w1)),
           lastOpenTime = Some (clock w1 (Suc (reads w1)))\<rparr>)"
    show ?thesis
    proof (cases "quota w ?t")
      case True
      from save_writes [OF refl False Inr g True] assms show ?thesis by auto
    next
      case no: False
      from save_rejected [OF refl False Inr g no] assms fr show ?thesis by auto
    qed
  qed
qed

section \<open>Facts about the fileManager functions\<close>

lemma getSavedFiles_storage:
  "storage w = Some (Serialized fs) \<Longrightarrow> getSavedFiles w = Inr fs"
  by (simp add: getSavedFiles_def getItem_def JSON_parse_def)

lemma get_property_Some [simp]: "files n = Some r \<Longrightarrow> get_property files n = Own r"
  by (simp add: get_property_def)

lemma get_property_absent:
  "files n = None \<Longrightarrow> n \<notin> set Object_prototype \<Longrightarrow> get_property files n = Undefined"
  by (simp add: get_property_def)

lemma get_property_inherited:
  "files n = None \<Longrightarrow> n \<in> set Object_prototype \<Longrightarrow> get_property files n = Inherited"
  by (simp add: get_property_def)

lemma truthy_simps [simp]:
  "truthy (Own r)" "truthy Inherited" "\<not> truthy Undefined"
  by (simp_all add: truthy_def)

lemma renamed_own:
  assumes "files oldName = Some r" and "newName \<noteq> js ''__proto__'' \<or> files newName \<noteq> None"
  shows "renamed files oldName newName t = (files(newName \<mapsto> r\<lparr>saveTime := Some t\<rparr>))(oldName := None)"
  using assms by (auto simp: renamed_def put_property_def delete_property_def spread_def)

text \<open>The four ways \<open>renameFile\<close> ends.\<close>

lemma renameFile_same: "renameFile a a am w = (Inr False, am, w)"
  by (simp add: renameFile_def)

lemma renameFile_throws:
  "a \<noteq> b \<Longrightarrow> getSavedFiles w = Inl e \<Longrightarrow> renameFile a b am w = (Inl e, am, w)"
  by (simp add: renameFile_def)

lemma renameFile_refused:
  "getSavedFiles w = Inr files \<Longrightarrow> \<not> truthy (get_property files a) \<Longrightarrow>
   renameFile a b am w = (Inr False, am, w)"
  by (simp add: renameFile_def)

lemma renameFile_rejected:
  assumes "a \<noteq> b" and "getSavedFiles w = Inr files" and "truthy (get_property files a)"
    and "\<not> quota w (Serialized (renamed files a b (clock w (reads w))))"
  shows "renameFile a b am w = (Inl QuotaExceededError, am, w\<lparr>reads := Suc (reads w)\<rparr>)"
  using assms
  by (simp add: renameFile_def new_Date_def setItem_def JSON_stringify_def renamed_def)

lemma renameFile_written:
  assumes "a \<noteq> b" and "getSavedFiles w = Inr files" and "truthy (get_property files a)"
    and "quota w (Serialized (renamed files a b (clock w (reads w))))"
  shows "renameFile a b am w =
     (case am of
        None \<Rightarrow>
          (Inr True, None,
           w\<lparr>reads := Suc (reads w),
              storage := Some (Serialized (renamed files a b (clock w (reads w))))\<rparr>)
      | Some m \<Rightarrow>
          (case getFileName m
                  (w\<lparr>reads := Suc (reads w),
                     storage := Some (Serialized (renamed files a b (clock w (reads w))))\<rparr>) of
             (n, m1, w3) \<Rightarrow> (Inr True, Some (if n = a then setFileName b m1 else m1), w3)))"
  using assms
  by (simp add: renameFile_def new_Date_def setItem_def JSON_stringify_def renamed_def
      split: option.splits)

lemma renameFile_True_iff:
  "fst (renameFile a b am w) = Inr True \<longleftrightarrow>
   a \<noteq> b \<and> (\<exists>files. getSavedFiles w = Inr files \<and> truthy (get_property files a) \<and>
      quota w (Serialized (renamed files a b (clock w (reads w)))))"
proof (cases "a = b")
  case True
  then show ?thesis by (simp add: renameFile_same)
next
  case ne: False
  show ?thesis
  proof (cases "getSavedFiles w")
    case (Inl e)
    with ne show ?thesis by (simp add: renameFile_throws)
  next
    case (Inr files)
    show ?thesis
    proof (cases "truthy (get_property files a)")
      case False
      with Inr ne show ?thesis by (simp add: renameFile_refused)
    next
      case t: True
      show ?thesis
      proof (cases "quota w (Serialized (renamed files a b (clock w (reads w))))")
        case False
        with Inr ne t show ?thesis by (simp add: renameFile_rejected)
      next
        case True
        with Inr ne t show ?thesis
          by (simp add: renameFile_written split: option.splits prod.splits)
      qed
    qed
  qed
qed

lemma renameFile_not_True:
  assumes "fst (renameFile a b am w) \<noteq> Inr True"
  shows "fst (snd (renameFile a b am w)) = am \<and>
         storage (snd (snd (renameFile a b am w))) = storage w \<and>
         timers (snd (snd (renameFile a b am w))) = timers w"
proof (cases "a = b")
  case True
  then show ?thesis by (simp add: renameFile_same)
next
  case ne: False
  show ?thesis
  proof (cases "getSavedFiles w")
    case (Inl e)
    with ne show ?thesis by (simp add: renameFile_throws)
  next
    case (Inr files)
    show ?thesis
    proof (cases "truthy (get_property files a)")
      case False
      with Inr ne show ?thesis by (simp add: renameFile_refused)
    next
      case t: True
      with assms ne Inr have "\<not> quota w (Serialized (renamed files a b (clock w (reads w))))"
        by (auto simp: renameFile_True_iff)
      with Inr ne t show ?thesis by (simp add: renameFile_rejected)
    qed
  qed
qed

lemma renameFile_done:
  assumes "a \<noteq> b" and "getSavedFiles w = Inr files" and "truthy (get_property files a)"
    and "quota w (Serialized (renamed files a b (clock w (reads w))))"
  shows "fst (renameFile a b am w) = Inr True \<and>
         storage (snd (snd (renameFile a b am w))) =
           Some (Serialized (renamed files a b (clock w (reads w)))) \<and>
         editor_content (snd (snd (renameFile a b am w))) = editor_content w \<and>
         timers (snd (snd (renameFile a b am w))) = timers w"
proof (cases am)
  case None
  with renameFile_written [OF assms, of am] show ?thesis by simp
next
  case (Some m)
  let ?w2 = "w\<lparr>reads := Suc (reads w),
               storage := Some (Serialized (renamed files a b (clock w (reads w))))\<rparr>"
  obtain n m1 w3 where g: "getFileName m ?w2 = (n, m1, w3)"
    by (cases "getFileName m ?w2") auto
  with renameFile_written [OF assms, of am] Some getFileName_frame [OF g] show ?thesis
    by simp
qed

lemma renameFile_manager:
  assumes "fst (renameFile a b (Some m) w) = Inr True"
  shows "currentFileName m = Some n \<Longrightarrow> n \<noteq> [] \<Longrightarrow>
         fst (snd (renameFile a b (Some m) w)) =
           Some (if n = a then setFileName b m else m)"
    and "currentFileName m = None \<Longrightarrow>
         fst (snd (renameFile a b (Some m) w)) =
           Some (if default_name (clock w (Suc (reads w))) = a
                 then setFileName b (m\<lparr>currentFileName := Some (default_name (clock w (Suc (reads w))))\<rparr>)
                 else m\<lparr>currentFileName := Some (default_name (clock w (Suc (reads w))))\<rparr>)"
proof -
  from assms obtain files where f: "a \<noteq> b" "getSavedFiles w = Inr files"
      "truthy (get_property files a)"
      "quota w (Serialized (renamed files a b (clock w (reads w))))"
    by (auto simp: renameFile_True_iff)
  note wr = renameFile_written [OF f, of "Some m"]
  show "currentFileName m = Some n \<Longrightarrow> n \<noteq> [] \<Longrightarrow>
         fst (snd (renameFile a b (Some m) w)) =
           Some (if n = a then setFileName b m else m)"
    by (simp add: wr getFileName_set)
  show "currentFileName m = None \<Longrightarrow>
         fst (snd (renameFile a b (Some m) w)) =
           Some (if default_name (clock w (Suc (reads w))) = a
                 then setFileName b (m\<lparr>currentFileName := Some (default_name (clock w (Suc (reads w))))\<rparr>)
                 else m\<lparr>currentFileName := Some (default_name (clock w (Suc (reads w))))\<rparr>)"
    by (simp add: wr getFileName_unset)
qed

lemma createNewFile_storage: "storage (snd (snd (createNewFile fileName am w))) = storage w"
  by (cases am)
     (simp_all add: createNewFile_def new_Date_def updateContent_def Let_def save_empty
        getContent_def split: prod.splits)

lemma createNewFile_Some:
  "createNewFile fn (Some m) w =
     (let name = (case fn of
                    Some n \<Rightarrow> if n \<noteq> [] then n else default_name (clock w (reads w))
                  | None \<Rightarrow> default_name (clock w (reads w)))
      in (Inr name, Some (setFileName name m),
          w\<lparr>reads := Suc (reads w), editor_content := []\<rparr>))"
  by (simp add: createNewFile_def new_Date_def updateContent_def Let_def save_empty
        getContent_def)

lemma openFile_absent:
  "getSavedFiles w = Inr files \<Longrightarrow> \<not> truthy (get_property files n) \<Longrightarrow>
   openFile n am w = (Inr (), am, w)"
  by (simp add: openFile_def)

lemma openFile_present:
  "getSavedFiles w = Inr files \<Longrightarrow> truthy (get_property files n) \<Longrightarrow>
   openFile n am w =
     (Inr (), map_option (setFileName n) am,
      updateContent (loaded (content_of (get_property files n))) w)"
  by (simp add: openFile_def)

lemma openFile_throws:
  "getSavedFiles w = Inl e \<Longrightarrow> openFile n am w = (Inl e, am, w)"
  by (simp add: openFile_def)


section \<open>The current file name along a sequence of calls\<close>

lemma fileName_ok_name_inv: "fileName_ok m = name_inv (\<lambda>n. \<not> blank n) m"
  by (simp add: fileName_ok_def name_inv_def)

lemma fileName_trimmed_name_inv: "fileName_trimmed m = name_inv (\<lambda>n. n \<noteq> [] \<and> trim n = n) m"
  by (simp add: fileName_trimmed_def name_inv_def)

lemma name_inv_interval [simp]: "name_inv Q (m\<lparr>interval := h\<rparr>) = name_inv Q m"
  by (simp add: name_inv_def)

lemma name_inv_setFileName:
  assumes "\<And>s. trim s \<noteq> [] \<Longrightarrow> Q (trim s)" and "name_inv Q m"
  shows "name_inv Q (setFileName n m)"
  using assms by (simp add: setFileName_def name_inv_def)

lemma name_inv_getFileName:
  assumes "\<And>t. Q (default_name t)" and "name_inv Q m"
  shows "name_inv Q (fst (snd (getFileName m w)))"
  using assms
  by (simp add: getFileName_def name_inv_def new_Date_def Let_def split: option.splits)

lemma save_manager:
  "fst (snd (save m w)) = m \<or> fst (snd (save m w)) = fst (snd (getFileName m w))"
proof (cases "getContent w = []")
  case True
  then show ?thesis by (simp add: save_empty)
next
  case False
  obtain n m1 w1 where g: "getFileName m w = (n, m1, w1)"
    by (cases "getFileName m w") auto
  show ?thesis
  proof (cases "stored_files w")
    case (Inl e)
    with False g show ?thesis by (simp add: save_throws)
  next
    case (Inr files)
    let ?t = "Serialized (put_property files n
          \<lparr>content = Some (getContent w), saveTime = Some (clock w1 (reads w1)),
           lastOpenTime = Some (clock w1 (Suc (reads w1)))\<rparr>)"
    show ?thesis
    proof (cases "quota w ?t")
      case True
      from save_writes [OF refl False Inr g True] g show ?thesis by simp
    next
      case no: False
      from save_rejected [OF refl False Inr g no] g show ?thesis by simp
    qed
  qed
qed

lemma name_inv_save:
  assumes "\<And>t. Q (default_name t)" and "name_inv Q m"
  shows "name_inv Q (fst (snd (save m w)))"
  using save_manager [of m w] name_inv_getFileName [of Q m w, OF assms] assms(2)
  by auto

lemma name_inv_start:
  assumes "\<And>t. Q (default_name t)" and "name_inv Q m"
  shows "name_inv Q (fst (snd (start m w)))"
proof -
  define w0 where "w0 = (case interval m of
                  Some h \<Rightarrow> if h \<noteq> 0 then clearInterval h w else w
                | None \<Rightarrow> w)"
  obtain r m1 w1 where s: "save m w0 = (r, m1, w1)"
    by (cases "save m w0") auto
  from name_inv_save [of Q m w0, OF assms] s have "name_inv Q m1"
    by simp
  with s show ?thesis
    by (simp add: start_def w0_def [symmetric] setInterval_def Let_def split: sum.splits)
qed

lemma name_inv_stop: "name_inv Q m \<Longrightarrow> name_inv Q (fst (stop m w))"
  by (simp add: stop_def name_inv_def split: option.splits)

lemma name_inv_tick:
  assumes "\<And>t. Q (default_name t)" and "name_inv Q m"
  shows "name_inv Q (fst (tick h m w))"
proof (cases "timers w h")
  case None
  with assms(2) show ?thesis by (simp add: tick_def)
next
  case (Some ms)
  with name_inv_save [of Q m w, OF assms] show ?thesis
    by (simp add: tick_def split_beta)
qed

lemma name_inv_createNewFile:
  assumes "\<And>s. trim s \<noteq> [] \<Longrightarrow> Q (trim s)" and "name_inv Q m"
  shows "name_inv Q (fst (bound m (createNewFile fn (Some m) w)))"
  using name_inv_setFileName [of Q m, OF assms]
  by (simp add: createNewFile_Some bound_def Let_def)

lemma name_inv_openFile:
  assumes "\<And>s. trim s \<noteq> [] \<Longrightarrow> Q (trim s)" and "name_inv Q m"
  shows "name_inv Q (fst (bound m (openFile n (Some m) w)))"
  using name_inv_setFileName [of Q m n, OF assms] assms(2)
  by (simp add: openFile_def bound_def Let_def split: sum.splits)

lemma name_inv_renameFile:
  assumes t: "\<And>s. trim s \<noteq> [] \<Longrightarrow> Q (trim s)" and d: "\<And>t. Q (default_name t)"
    and i: "name_inv Q m"
  shows "name_inv Q (fst (bound m (renameFile a b (Some m) w)))"
proof (cases "fst (renameFile a b (Some m) w) = Inr True")
  case False
  then have "fst (snd (renameFile a b (Some m) w)) = Some m"
    by (simp add: renameFile_not_True)
  with i show ?thesis
    by (cases "renameFile a b (Some m) w") (simp add: bound_def)
next
  case True
  then obtain files where f: "a \<noteq> b" "getSavedFiles w = Inr files"
      "truthy (get_property files a)"
      "quota w (Serialized (renamed files a b (clock w (reads w))))"
    by (auto simp: renameFile_True_iff)
  define w2 where "w2 = w\<lparr>reads := Suc (reads w),
               storage := Some (Serialized (renamed files a b (clock w (reads w))))\<rparr>"
  obtain n m1 w3 where g: "getFileName m w2 = (n, m1, w3)"
    by (cases "getFileName m w2") auto
  from name_inv_getFileName [of Q m w2, OF d i] g have m1: "name_inv Q m1"
    by simp
  from renameFile_written [OF f, of "Some m"] g have "renameFile a b (Some m) w =
      (Inr True, Some (if n = a then setFileName b m1 else m1), w3)"
    by (simp add: w2_def)
  with m1 name_inv_setFileName [of Q m1 b, OF t m1] show ?thesis
    by (simp add: bound_def)
qed

lemma name_inv_exec:
  assumes t: "\<And>s. trim s \<noteq> [] \<Longrightarrow> Q (trim s)" and d: "\<And>t. Q (default_name t)"
    and i: "name_inv Q m"
  shows "name_inv Q (fst (exec c (m, w)))"
proof (cases c)
  case Start
  with name_inv_start [of Q m w, OF d i] show ?thesis by simp
next
  case Stop
  with name_inv_stop [OF i] show ?thesis by simp
next
  case Save
  with name_inv_save [of Q m w, OF d i] show ?thesis by simp
next
  case GetFileName
  with name_inv_getFileName [of Q m w, OF d i] show ?thesis by simp
next
  case (SetFileName n)
  with name_inv_setFileName [of Q m n, OF t i] show ?thesis by simp
next
  case (Tick h)
  with name_inv_tick [of Q m h w, OF d i] show ?thesis by simp
next
  case (CreateNewFile fn)
  with name_inv_createNewFile [of Q m fn w, OF t i] show ?thesis by simp
next
  case (OpenFile n)
  with name_inv_openFile [of Q m n w, OF t i] show ?thesis by simp
next
  case (RenameFile a b)
  with name_inv_renameFile [of Q m a b w, OF t d i] show ?thesis by simp
next
  case (DeleteFile n)
  with i show ?thesis by simp
next
  case (Edit s)
  with i show ?thesis by simp
next
  case (Overwrite b)
  with i show ?thesis by simp
next
  case (Capacity q)
  with i show ?thesis by simp
qed

lemma name_inv_run:
  assumes t: "\<And>s. trim s \<noteq> [] \<Longrightarrow> Q (trim s)" and d: "\<And>t. Q (default_name t)"
  shows "name_inv Q (fst s) \<Longrightarrow> name_inv Q (fst (run cs s))"
proof (induction cs arbitrary: s)
  case Nil
  then show ?case by simp
next
  case (Cons c cs)
  from name_inv_exec [of Q "fst s" c "snd s", OF t d Cons.prems]
  have "name_inv Q (fst (exec c s))" by simp
  then show ?case by (simp add: Cons.IH)
qed

lemma default_name_not_Nil: "default_name t \<noteq> []"
  by (simp add: default_name_def untitled_def)

lemma fileName_trimmed_run:
  "fileName_trimmed (fst s) \<Longrightarrow> fileName_trimmed (fst (run cs s))"
  unfolding fileName_trimmed_name_inv
  by (rule name_inv_run) (simp_all add: trim_idem default_name_trim default_name_not_Nil)

lemma fileName_ok_exec: "fileName_ok m \<Longrightarrow> fileName_ok (fst (exec c (m, w)))"
  unfolding fileName_ok_name_inv
proof (rule name_inv_exec)
  fix t show "\<not> blank (default_name t)"
    using default_name_trim [of t] by (simp add: trim_Nil_iff [symmetric] default_name_def untitled_def)
next
  fix s :: jsstring assume "trim s \<noteq> []" 
  then show "\<not> blank (trim s)" by (simp add: trim_Nil_iff not_blank_trim)
qed

section \<open>The live timers along a sequence of calls\<close>

lemma timers_owned_frame:
  assumes "timers_owned (m, w)" and "interval m' = interval m" and "timers w' = timers w"
  shows "timers_owned (m', w')"
  using assms by (simp add: timers_owned_def)






lemma tick_frame:
  "interval (fst (tick h m w)) = interval m \<and> timers (snd (tick h m w)) = timers w"
proof (cases "timers w h")
  case None
  then show ?thesis by (simp add: tick_def)
next
  case (Some ms)
  obtain r m1 w1 where s: "save m w = (r, m1, w1)"
    by (cases "save m w") auto
  with Some save_frame [OF s] show ?thesis
    by (simp add: tick_def)
qed















section \<open>Further facts used by the claims\<close>

lemmas model_defs =
  start_def stop_def save_def tick_def getFileName_def setFileName_def stored_files_def
  getSavedFiles_def getItem_def setItem_def setInterval_def clearInterval_def new_Date_def
  getContent_def updateContent_def JSON_parse_def JSON_stringify_def AutoSaveManager_def
  put_property_def fresh_world_def Let_def

lemma fileName_ok_run: "fileName_ok (fst s) \<Longrightarrow> fileName_ok (fst (run cs s))"
proof (induction cs arbitrary: s)
  case Nil
  then show ?case by simp
next
  case (Cons c cs)
  from fileName_ok_exec [of "fst s" c "snd s"] Cons.prems
  have "fileName_ok (fst (exec c s))" by simp
  then show ?case by (simp add: Cons.IH)
qed


section \<open>The claims\<close>

subsection \<open>C1: creating a new file\<close>

text \<open>
  C1. On a fresh host with an initialised manager, \<open>createNewFile()\<close> generates the
  default name, empties the editor and binds the manager to the new name, but the
  immediate \<open>save\<close> writes nothing: the store read back afterwards is empty, so no
  record exists under the new name.
\<close>

theorem createNewFile_lists_nothing:
  "(case createNewFile None (Some (AutoSaveManager None)) fresh_world of
      (r, am, w') \<Rightarrow>
        r = Inr (default_name 1700000000000) \<and>
        map_option currentFileName am = Some (Some (default_name 1700000000000)) \<and>
        editor_content w' = [] \<and>
        getSavedFiles w' = Inr Map.empty)"
  apply (simp add: createNewFile_def new_Date_def updateContent_def Let_def save_empty
        getContent_def fresh_world_def AutoSaveManager_def setFileName_def getSavedFiles_def
        getItem_def default_name_trim)
  apply (simp add: default_name_def untitled_def)
  done

subsection \<open>C2: reading a missing or corrupt item\<close>

text \<open>
  C2, as stated, fails: over a stored text that is not JSON, \<open>getSavedFiles\<close> does not
  return the empty mapping; the parser's exception reaches the caller.
\<close>

theorem getSavedFiles_corrupt_throws:
  "storage corrupt_world = Some Malformed \<and>
   getSavedFiles corrupt_world = Inl SyntaxError \<and>
   getSavedFiles corrupt_world \<noteq> Inr Map.empty"
  by (simp add: getSavedFiles_def corrupt_world_def fresh_world_def getItem_def JSON_parse_def)

text \<open>
  C2, amended. When the item is missing or is the empty string, both reads of the store
  (\<open>getSavedFiles\<close> and the read inside \<open>save\<close>) give the empty mapping and do
  not throw. When the item is a non-empty text that is not JSON, both throw the parser's
  \<open>SyntaxError\<close> to the caller.
\<close>

theorem getSavedFiles_missing_or_corrupt:
  "(storage w = None \<or> storage w = Some EmptyText \<longrightarrow>
      getSavedFiles w = Inr Map.empty \<and> stored_files w = Inr Map.empty) \<and>
   (storage w = Some Malformed \<longrightarrow>
      getSavedFiles w = Inl SyntaxError \<and> stored_files w = Inl SyntaxError)"
  by (auto simp: getSavedFiles_def stored_files_def getItem_def JSON_parse_def)

theorem getSavedFiles_missing_or_corrupt_witness:
  "storage fresh_world = None \<and> getSavedFiles fresh_world = Inr Map.empty \<and>
   stored_files fresh_world = Inr Map.empty \<and>
   storage corrupt_world = Some Malformed \<and> getSavedFiles corrupt_world = Inl SyntaxError \<and>
   stored_files corrupt_world = Inl SyntaxError"
proof -
  have h1: "storage fresh_world = None"
    by (simp add: fresh_world_def)
  have h2: "storage corrupt_world = Some Malformed"
    by (simp add: corrupt_world_def fresh_world_def)
  show ?thesis
    using h1 h2 getSavedFiles_missing_or_corrupt [of fresh_world]
      getSavedFiles_missing_or_corrupt [of corrupt_world]
    by simp
qed

subsection \<open>C3: a failing save\<close>

text \<open>
  C3, as stated, fails: \<open>save\<close> has no handler. Over a stored text that is not JSON
  the parser's exception leaves \<open>save\<close>, and on a host that rejects the write the
  exception of \<open>setItem\<close> does.
\<close>

theorem save_failure_escapes:
  "fst (save (AutoSaveManager None) corrupt_world) = Inl SyntaxError \<and>
   fst (save (AutoSaveManager None) full_world) = Inl QuotaExceededError"
  by (simp add: save_def getContent_def corrupt_world_def full_world_def world_ab_def
      fresh_world_def getFileName_def AutoSaveManager_def new_Date_def Let_def stored_files_def
      getItem_def setItem_def JSON_parse_def)

text \<open>
  C3, amended. \<open>save\<close> catches nothing. With non-empty content, a stored text that
  is not JSON makes it throw \<open>SyntaxError\<close>, and a host that rejects the text handed to
  \<open>setItem\<close> makes it throw \<open>QuotaExceededError\<close> (the read by \<open>getItem\<close> has
  no failure of its own). Whenever \<open>save\<close> throws it has written nothing: the stored
  item, the live timers and the manager's timer handle are as before. When the call came
  from a firing of the timer, the host drops the exception: the store is as before, and
  in every case the timer stays armed for the next cycle.
\<close>

theorem save_failure:
  "(getContent w \<noteq> [] \<and> storage w = Some Malformed \<longrightarrow> fst (save m w) = Inl SyntaxError) \<and>
   (getContent w \<noteq> [] \<and> stored_files w = Inr files \<and> getFileName m w = (n, m1, w1) \<and>
    \<not> quota w (Serialized (put_property files n
          \<lparr>content = Some (getContent w), saveTime = Some (clock w1 (reads w1)),
           lastOpenTime = Some (clock w1 (Suc (reads w1)))\<rparr>)) \<longrightarrow>
      fst (save m w) = Inl QuotaExceededError) \<and>
   (fst (save m w) = Inl e \<longrightarrow>
      storage (snd (snd (save m w))) = storage w \<and>
      timers (snd (snd (save m w))) = timers w \<and>
      interval (fst (snd (save m w))) = interval m \<and>
      storage (snd (tick h m w)) = storage w) \<and>
   timers (snd (tick h m w)) = timers w \<and>
   interval (fst (tick h m w)) = interval m"
proof (intro conjI impI)
  assume a: "getContent w \<noteq> [] \<and> storage w = Some Malformed"
  obtain n' m' w' where g: "getFileName m w = (n', m', w')"
    by (cases "getFileName m w") auto
  from a have "stored_files w = Inl SyntaxError"
    by (simp add: stored_files_def getItem_def JSON_parse_def)
  from save_throws [OF _ this g] a show "fst (save m w) = Inl SyntaxError"
    by simp
next
  assume a: "getContent w \<noteq> [] \<and> stored_files w = Inr files \<and> getFileName m w = (n, m1, w1) \<and>
    \<not> quota w (Serialized (put_property files n
          \<lparr>content = Some (getContent w), saveTime = Some (clock w1 (reads w1)),
           lastOpenTime = Some (clock w1 (Suc (reads w1)))\<rparr>))"
  then have a1: "getContent w \<noteq> []" and a2: "stored_files w = Inr files"
    and a3: "getFileName m w = (n, m1, w1)"
    and a4: "\<not> quota w (Serialized (put_property files n
          \<lparr>content = Some (getContent w), saveTime = Some (clock w1 (reads w1)),
           lastOpenTime = Some (clock w1 (Suc (reads w1)))\<rparr>))"
    by simp_all
  from save_rejected [OF refl a1 a2 a3 a4]
  show "fst (save m w) = Inl QuotaExceededError" by simp
next
  assume a: "fst (save m w) = Inl e"
  obtain r m' w' where s: "save m w = (r, m', w')"
    by (cases "save m w") auto
  with a have s': "save m w = (Inl e, m', w')" by simp
  from save_failed_storage [OF s'] s
  show st: "storage (snd (snd (save m w))) = storage w" by simp
  from save_frame [OF s] s show "timers (snd (snd (save m w))) = timers w"
    and "interval (fst (snd (save m w))) = interval m"
    by simp_all
  from st s show "storage (snd (tick h m w)) = storage w"
    by (simp add: tick_def split: option.splits)
next
  show "timers (snd (tick h m w)) = timers w"
    by (simp add: tick_frame)
  show "interval (fst (tick h m w)) = interval m"
    by (simp add: tick_frame)
qed

theorem save_failure_witness:
  "getContent corrupt_world \<noteq> [] \<and> storage corrupt_world = Some Malformed \<and>
   fst (save (AutoSaveManager None) corrupt_world) = Inl SyntaxError \<and>
   storage (snd (snd (save (AutoSaveManager None) corrupt_world))) = Some Malformed \<and>
   getContent full_world \<noteq> [] \<and>
   fst (save (AutoSaveManager None) full_world) = Inl QuotaExceededError \<and>
   storage (snd (snd (save (AutoSaveManager None) full_world))) = storage full_world \<and>
   storage (snd (tick 1 (AutoSaveManager None\<lparr>interval := Some 1\<rparr>)
                  (full_world\<lparr>timers := [1 \<mapsto> 10000]\<rparr>))) = storage full_world \<and>
   timers (snd (tick 1 (AutoSaveManager None\<lparr>interval := Some 1\<rparr>)
                 (full_world\<lparr>timers := [1 \<mapsto> 10000]\<rparr>))) = [1 \<mapsto> 10000]"
proof -
  let ?m = "AutoSaveManager None"
  let ?wt = "full_world\<lparr>timers := [1 \<mapsto> 10000]\<rparr>"
  let ?mt = "AutoSaveManager None\<lparr>interval := Some 1\<rparr>"
  have c: "getContent corrupt_world \<noteq> [] \<and> storage corrupt_world = Some Malformed"
    by (simp add: corrupt_world_def fresh_world_def getContent_def)
  have fc: "getContent full_world \<noteq> []" "getContent ?wt \<noteq> []"
    by (simp_all add: full_world_def getContent_def)
  have fs: "stored_files full_world = Inr [ [0x61] \<mapsto> record_a, [0x62] \<mapsto> record_b]"
     "stored_files ?wt = Inr [ [0x61] \<mapsto> record_a, [0x62] \<mapsto> record_b]"
    by (simp_all add: full_world_def world_ab_def fresh_world_def stored_files_def getItem_def
        JSON_parse_def)
  have fq: "\<not> quota full_world t" "\<not> quota ?wt t" for t
    by (simp_all add: full_world_def)
  have g: "getFileName ?m full_world = (fst (getFileName ?m full_world),
      fst (snd (getFileName ?m full_world)), snd (snd (getFileName ?m full_world)))"
    "getFileName ?mt ?wt = (fst (getFileName ?mt ?wt),
      fst (snd (getFileName ?mt ?wt)), snd (snd (getFileName ?mt ?wt)))"
    by simp_all
  from save_failure [where m = ?m and w = corrupt_world and e = SyntaxError] c
  have 1: "fst (save ?m corrupt_world) = Inl SyntaxError \<and>
        storage (snd (snd (save ?m corrupt_world))) = Some Malformed"
    by simp
  from save_failure [where m = ?m and w = full_world and e = QuotaExceededError
      and files = "[ [0x61] \<mapsto> record_a, [0x62] \<mapsto> record_b]", OF] fc fs fq g(1)
  have 2: "fst (save ?m full_world) = Inl QuotaExceededError \<and>
        storage (snd (snd (save ?m full_world))) = storage full_world"
    by blast
  from save_failure [where m = ?mt and w = ?wt and e = QuotaExceededError and h = 1
      and files = "[ [0x61] \<mapsto> record_a, [0x62] \<mapsto> record_b]"] fc fs fq g(2)
  have "storage (snd (tick 1 ?mt ?wt)) = storage ?wt \<and> timers (snd (tick 1 ?mt ?wt)) = timers ?wt"
    by blast
  then have 3: "storage (snd (tick 1 ?mt ?wt)) = storage full_world \<and>
      timers (snd (tick 1 ?mt ?wt)) = [1 \<mapsto> 10000]"
    by simp
  from c fc 1 2 3 show ?thesis by blast
qed

subsection \<open>C4: renaming in the store\<close>

text \<open>
  C4, as stated, fails. The store with the one file "a" has no record under
  \<open>toString\<close>, yet \<open>renameFile\<close> from that name returns \<open>true\<close> and writes an
  entry that holds nothing but a \<open>saveTime\<close>: the test \<open>files[oldName]\<close> reads
  through \<open>Object.prototype\<close>. And on a host that rejects the write, renaming "a",
  which has a record, throws instead of returning \<open>true\<close>.
\<close>

theorem renameFile_absent_or_full:
  "getSavedFiles world_a = Inr [ [0x61] \<mapsto> record_a] \<and>
   [ [0x61] \<mapsto> record_a] (js ''toString'') = None \<and>
   fst (renameFile (js ''toString'') [0x62] None world_a) = Inr True \<and>
   getSavedFiles (snd (snd (renameFile (js ''toString'') [0x62] None world_a))) =
     Inr [ [0x61] \<mapsto> record_a,
           [0x62] \<mapsto> \<lparr>content = None, saveTime = Some 1700000000000, lastOpenTime = None\<rparr>] \<and>
   fst (renameFile [0x61] [0x63] None full_world) = Inl QuotaExceededError"
  by (simp add: renameFile_def getSavedFiles_def getItem_def JSON_parse_def JSON_stringify_def
      world_a_def full_world_def world_ab_def fresh_world_def get_property_def truthy_def
      Object_prototype_def js_def put_property_def delete_property_def spread_def
      empty_object_def new_Date_def setItem_def Let_def)

text \<open>
  C4, amended. Over any readable store, \<open>renameFile oldName newName\<close> returns
  \<open>false\<close> and changes nothing when the two names are equal, or when \<open>oldName\<close>
  has no record and is not a property name of \<open>Object.prototype\<close>. When the names
  differ, \<open>oldName\<close> has a record and \<open>newName\<close> is not a \<open>__proto__\<close> that the
  store lacks: if the host accepts the write, it returns \<open>true\<close> and the store read
  back afterwards is the old one with \<open>oldName\<close> removed and \<open>newName\<close> bound to
  the record of \<open>oldName\<close> (same content, same \<open>lastOpenTime\<close>, \<open>saveTime\<close>
  set to the clock at the call); if the host rejects the write, it throws
  \<open>QuotaExceededError\<close> and the stored item and the manager are as before.
\<close>

theorem renameFile_store:
  assumes "getSavedFiles w = Inr files"
  shows "(oldName = newName \<or> files oldName = None \<and> oldName \<notin> set Object_prototype \<longrightarrow>
            renameFile oldName newName am w = (Inr False, am, w)) \<and>
         (oldName \<noteq> newName \<and> files oldName = Some r \<and>
          (newName \<noteq> js ''__proto__'' \<or> files newName \<noteq> None) \<and>
          quota w (Serialized ((files(newName \<mapsto>
                     \<lparr>content = content r, saveTime = Some (clock w (reads w)),
                      lastOpenTime = lastOpenTime r\<rparr>))(oldName := None))) \<longrightarrow>
            fst (renameFile oldName newName am w) = Inr True \<and>
            getSavedFiles (snd (snd (renameFile oldName newName am w))) =
              Inr ((files(newName \<mapsto>
                     \<lparr>content = content r, saveTime = Some (clock w (reads w)),
                      lastOpenTime = lastOpenTime r\<rparr>))(oldName := None))) \<and>
         (oldName \<noteq> newName \<and> files oldName = Some r \<and>
          (newName \<noteq> js ''__proto__'' \<or> files newName \<noteq> None) \<and>
          \<not> quota w (Serialized ((files(newName \<mapsto>
                     \<lparr>content = content r, saveTime = Some (clock w (reads w)),
                      lastOpenTime = lastOpenTime r\<rparr>))(oldName := None))) \<longrightarrow>
            fst (renameFile oldName newName am w) = Inl QuotaExceededError \<and>
            fst (snd (renameFile oldName newName am w)) = am \<and>
            storage (snd (snd (renameFile oldName newName am w))) = storage w)"
proof -
  let ?new = "(files(newName \<mapsto>
                     \<lparr>content = content r, saveTime = Some (clock w (reads w)),
                      lastOpenTime = lastOpenTime r\<rparr>))(oldName := None)"
  have eq: "\<lparr>content = content r, saveTime = Some (clock w (reads w)),
             lastOpenTime = lastOpenTime r\<rparr> = r\<lparr>saveTime := Some (clock w (reads w))\<rparr>"
    by simp
  have rn: "renamed files oldName newName (clock w (reads w)) = ?new"
    if "files oldName = Some r" "newName \<noteq> js ''__proto__'' \<or> files newName \<noteq> None"
    unfolding eq using that by (rule renamed_own)
  have 1: "oldName = newName \<or> files oldName = None \<and> oldName \<notin> set Object_prototype \<longrightarrow>
            renameFile oldName newName am w = (Inr False, am, w)"
    using assms by (auto simp: renameFile_same renameFile_refused get_property_absent)
  have 2: "oldName \<noteq> newName \<and> files oldName = Some r \<and>
          (newName \<noteq> js ''__proto__'' \<or> files newName \<noteq> None) \<and> quota w (Serialized ?new) \<longrightarrow>
            fst (renameFile oldName newName am w) = Inr True \<and>
            getSavedFiles (snd (snd (renameFile oldName newName am w))) = Inr ?new"
  proof
    assume a: "oldName \<noteq> newName \<and> files oldName = Some r \<and>
          (newName \<noteq> js ''__proto__'' \<or> files newName \<noteq> None) \<and> quota w (Serialized ?new)"
    then have r: "renamed files oldName newName (clock w (reads w)) = ?new"
      by (intro rn) simp_all
    from a have t: "truthy (get_property files oldName)" by simp
    from a r have q: "quota w (Serialized (renamed files oldName newName (clock w (reads w))))"
      by simp
    from a have ne: "oldName \<noteq> newName" by simp
    from renameFile_done [OF ne assms t q, of am] r
    show "fst (renameFile oldName newName am w) = Inr True \<and>
            getSavedFiles (snd (snd (renameFile oldName newName am w))) = Inr ?new"
      by (simp add: getSavedFiles_storage)
  qed
  have 3: "oldName \<noteq> newName \<and> files oldName = Some r \<and>
          (newName \<noteq> js ''__proto__'' \<or> files newName \<noteq> None) \<and> \<not> quota w (Serialized ?new) \<longrightarrow>
            fst (renameFile oldName newName am w) = Inl QuotaExceededError \<and>
            fst (snd (renameFile oldName newName am w)) = am \<and>
            storage (snd (snd (renameFile oldName newName am w))) = storage w"
  proof
    assume a: "oldName \<noteq> newName \<and> files oldName = Some r \<and>
          (newName \<noteq> js ''__proto__'' \<or> files newName \<noteq> None) \<and> \<not> quota w (Serialized ?new)"
    then have r: "renamed files oldName newName (clock w (reads w)) = ?new"
      by (intro rn) simp_all
    from a have t: "truthy (get_property files oldName)" by simp
    from a r have q: "\<not> quota w (Serialized (renamed files oldName newName (clock w (reads w))))"
      by simp
    from a have ne: "oldName \<noteq> newName" by simp
    from renameFile_rejected [OF ne assms t q, of am]
    show "fst (renameFile oldName newName am w) = Inl QuotaExceededError \<and>
            fst (snd (renameFile oldName newName am w)) = am \<and>
            storage (snd (snd (renameFile oldName newName am w))) = storage w"
      by simp
  qed
  from 1 2 3 show ?thesis by blast
qed

theorem renameFile_store_witness:
  "getSavedFiles world_a = Inr [ [0x61] \<mapsto> record_a] \<and>
   renameFile [0x61] [0x61] None world_a = (Inr False, None, world_a) \<and>
   renameFile [0x63] [0x62] None world_a = (Inr False, None, world_a) \<and>
   fst (renameFile [0x61] [0x62] None world_a) = Inr True \<and>
   getSavedFiles (snd (snd (renameFile [0x61] [0x62] None world_a))) =
     Inr [ [0x62] \<mapsto> \<lparr>content = Some [0x68, 0x65, 0x6C, 0x6C, 0x6F],
                         saveTime = Some 1700000000000,
                         lastOpenTime = Some 1600000000001\<rparr>] \<and>
   getSavedFiles full_world = Inr [ [0x61] \<mapsto> record_a, [0x62] \<mapsto> record_b] \<and>
   fst (renameFile [0x61] [0x63] None full_world) = Inl QuotaExceededError \<and>
   storage (snd (snd (renameFile [0x61] [0x63] None full_world))) = storage full_world"
proof -
  have h: "getSavedFiles world_a = Inr [ [0x61] \<mapsto> record_a]"
    by (simp add: world_a_def fresh_world_def getSavedFiles_storage)
  have hf: "getSavedFiles full_world = Inr [ [0x61] \<mapsto> record_a, [0x62] \<mapsto> record_b]"
    by (simp add: full_world_def world_ab_def fresh_world_def getSavedFiles_storage)
  have c: "clock world_a (reads world_a) = 1700000000000"
    by (simp add: world_a_def fresh_world_def)
  have q: "quota world_a t" "\<not> quota full_world t" for t
    by (simp_all add: world_a_def full_world_def world_ab_def fresh_world_def)
  have p: "[0x63::16 word] \<notin> set Object_prototype" "[0x62::16 word] \<noteq> js ''__proto__''"
      "[0x63::16 word] \<noteq> js ''__proto__''"
    by (simp_all add: Object_prototype_def js_def)
  have e: "([ [0x61] \<mapsto> record_a])([0x62::16 word] \<mapsto>
     \<lparr>content = Some [0x68, 0x65, 0x6C, 0x6C, 0x6F], saveTime = Some 1700000000000,
      lastOpenTime = Some 1600000000001\<rparr>, [0x61] := None) =
       [ [0x62] \<mapsto> \<lparr>content = Some [0x68, 0x65, 0x6C, 0x6C, 0x6F],
                       saveTime = Some 1700000000000, lastOpenTime = Some 1600000000001\<rparr>]"
    by (rule ext) simp
  show ?thesis
    using h hf
      renameFile_store [OF h, where oldName = "[0x61]" and newName = "[0x61]" and am = None]
      renameFile_store [OF h, where oldName = "[0x63]" and newName = "[0x62]" and am = None]
      renameFile_store [OF h, where oldName = "[0x61]" and newName = "[0x62]" and am = None
        and r = record_a]
      renameFile_store [OF hf, where oldName = "[0x61]" and newName = "[0x63]" and am = None
        and r = record_a]
    by (simp add: c e q p record_a_def)
qed

subsection \<open>C5: save, then open\<close>

text \<open>
  C5, as stated, fails. Over a stored text that is not JSON, with current file name "f"
  and content "x", \<open>save\<close> throws and so does \<open>openFile\<close>. With the current file
  name \<open>__proto__\<close> over an empty store, \<open>save\<close> returns but stores no record, and
  \<open>openFile\<close> then loads the empty text in place of "x". And \<open>openFile\<close> on
  \<open>constructor\<close>, which the empty store does not hold, binds the manager to that
  name.
\<close>

theorem save_then_openFile_fails:
  "fst (save (setFileName [0x66] (AutoSaveManager None)) corrupt_world) = Inl SyntaxError \<and>
   fst (openFile [0x66] (Some (setFileName [0x66] (AutoSaveManager None))) corrupt_world) =
     Inl SyntaxError \<and>
   (case save (setFileName (js ''__proto__'') (AutoSaveManager None))
           (updateContent [0x78] fresh_world) of
      (r1, m1, w1) \<Rightarrow>
        r1 = Inr () \<and> getSavedFiles w1 = Inr Map.empty \<and>
        editor_content (snd (snd (openFile (js ''__proto__'') (Some m1) w1))) = []) \<and>
   getSavedFiles fresh_world = Inr Map.empty \<and>
   map_option currentFileName
     (fst (snd (openFile (js ''constructor'') (Some (AutoSaveManager None)) fresh_world))) =
     Some (Some (js ''constructor''))"
  by (simp add: save_def openFile_def getSavedFiles_def stored_files_def getItem_def setItem_def
      JSON_parse_def JSON_stringify_def corrupt_world_def fresh_world_def getContent_def
      updateContent_def getFileName_def setFileName_def AutoSaveManager_def new_Date_def
      Let_def get_property_def put_property_def truthy_def content_of_def loaded_def
      Object_prototype_def js_def trim_def trimStart_def trimEnd_def isWhiteSpace_def)

text \<open>
  C5, amended. In any state a manager can reach after construction, with current file
  name \<open>f\<close> and non-empty content \<open>x\<close>, over a readable store, \<open>f\<close> not being
  a \<open>__proto__\<close> that the store lacks, on a host that accepts the write: \<open>save\<close>
  returns normally and the store read back has the record with content \<open>x\<close> under
  \<open>f\<close>. Whatever is typed into the editor afterwards and whatever manager the
  composable then holds, \<open>openFile f\<close> returns normally with \<open>x\<close> in the editor
  and the manager bound to \<open>f\<close>. And when the store has no record under \<open>n\<close> and
  \<open>n\<close> is not a property name of \<open>Object.prototype\<close>, \<open>openFile n\<close> changes
  nothing.
\<close>

theorem save_then_openFile:
  assumes "run cs (AutoSaveManager opt, w0) = (m, w)" and "currentFileName m = Some f"
    and "getContent w = x" and "x \<noteq> []" and "getSavedFiles w = Inr files"
    and "f \<noteq> js ''__proto__'' \<or> files f \<noteq> None"
    and "quota w (Serialized (files(f \<mapsto>
           \<lparr>content = Some x, saveTime = Some (clock w (reads w)),
            lastOpenTime = Some (clock w (Suc (reads w)))\<rparr>)))"
  shows "(case save m w of
            (r1, m1, w1) \<Rightarrow>
              r1 = Inr () \<and>
              getSavedFiles w1 =
                Inr (files(f \<mapsto>
                  \<lparr>content = Some x, saveTime = Some (clock w (reads w)),
                   lastOpenTime = Some (clock w (Suc (reads w)))\<rparr>)) \<and>
              (\<forall>y am2.
                 case openFile f am2 (updateContent y w1) of
                   (r2, am3, w2) \<Rightarrow>
                     r2 = Inr () \<and> editor_content w2 = x \<and>
                     am3 = map_option (setFileName f) am2)) \<and>
         (\<forall>m2. currentFileName (setFileName f m2) = Some f) \<and>
         (files n = None \<and> n \<notin> set Object_prototype \<longrightarrow>
            openFile n am w = (Inr (), am, w))"
proof -
  let ?rec = "\<lparr>content = Some x, saveTime = Some (clock w (reads w)),
               lastOpenTime = Some (clock w (Suc (reads w)))\<rparr>"
  let ?new = "files(f \<mapsto> ?rec)"
  let ?w1 = "w\<lparr>reads := Suc (Suc (Suc (reads w))), storage := Some (Serialized ?new)\<rparr>"
  have "fileName_trimmed (fst (run cs (AutoSaveManager opt, w0)))"
    by (rule fileName_trimmed_run) (simp add: fileName_trimmed_def AutoSaveManager_def)
  with assms(1,2) have f: "f \<noteq> []" "trim f = f"
    by (simp_all add: fileName_trimmed_def)
  from assms(2) f have g: "getFileName m w = (f, m, w)"
    by (simp add: getFileName_set)
  from assms(5) have s: "stored_files w = Inr files"
    by (simp add: getSavedFiles_stored_files)
  from assms(6) have p: "put_property files f ?rec = ?new"
    by (auto simp: put_property_def)
  from save_writes [OF assms(3,4) s g] assms(7) p have sv: "save m w = (Inr (), m, ?w1)"
    by simp
  have rd: "getSavedFiles (updateContent y ?w1) = Inr ?new" for y
    by (simp add: getSavedFiles_storage updateContent_def)
  have op: "openFile f am2 (updateContent y ?w1) =
      (Inr (), map_option (setFileName f) am2, updateContent x (updateContent y ?w1))" for y am2
    using openFile_present [OF rd [of y], of f am2]
    by (simp add: content_of_def loaded_def)
  have nm: "currentFileName (setFileName f m2) = Some f" for m2
    using f by (simp add: setFileName_def)
  have ab: "files n = None \<and> n \<notin> set Object_prototype \<longrightarrow> openFile n am w = (Inr (), am, w)"
    using assms(5) by (auto simp: openFile_absent get_property_absent)
  have rd0: "getSavedFiles ?w1 = Inr ?new"
    by (simp add: getSavedFiles_storage)
  from sv rd0 op nm ab show ?thesis
    by (simp add: updateContent_def)
qed

theorem save_then_openFile_witness:
  "(case save (setFileName [0x66] (AutoSaveManager None)) (updateContent [0x78] world_a) of
      (r1, m1, w1) \<Rightarrow>
        r1 = Inr () \<and>
        (case openFile [0x66] (Some (setFileName [0x67] (AutoSaveManager None)))
                (updateContent [0x79, 0x79] w1) of
           (r2, am3, w2) \<Rightarrow>
             r2 = Inr () \<and> editor_content w2 = [0x78] \<and>
             am3 = Some (setFileName [0x66] (setFileName [0x67] (AutoSaveManager None))))) \<and>
   currentFileName (setFileName [0x66] (setFileName [0x67] (AutoSaveManager None))) =
     Some [0x66] \<and>
   openFile [0x66] None (updateContent [0x78] world_a) =
     (Inr (), None, updateContent [0x78] world_a)"
proof -
  let ?w = "updateContent [0x78] world_a"
  have r: "run [SetFileName [0x66], Edit [0x78]] (AutoSaveManager None, world_a) =
           (setFileName [0x66] (AutoSaveManager None), ?w)"
    by simp
  have n: "currentFileName (setFileName [0x66] (AutoSaveManager None)) = Some [0x66]"
    by (simp add: setFileName_def trim_def trimStart_def trimEnd_def isWhiteSpace_def)
  have c: "getContent ?w = [0x78]"
    by (simp add: getContent_def updateContent_def)
  have x: "[0x78::16 word] \<noteq> []" by simp
  have s: "getSavedFiles ?w = Inr [ [0x61] \<mapsto> record_a]"
    by (simp add: world_a_def fresh_world_def getSavedFiles_storage updateContent_def)
  have p: "[0x66::16 word] \<noteq> js ''__proto__'' \<or> [ [0x61::16 word] \<mapsto> record_a] [0x66] \<noteq> None"
    by (simp add: js_def)
  have q: "quota ?w t" for t
    by (simp add: updateContent_def world_a_def fresh_world_def)
  have a: "[ [0x61::16 word] \<mapsto> record_a] [0x66] = None \<and> [0x66::16 word] \<notin> set Object_prototype"
    by (simp add: Object_prototype_def js_def)
  obtain r1 m1 w1 where sv: "save (setFileName [0x66] (AutoSaveManager None)) ?w = (r1, m1, w1)"
    by (cases "save (setFileName [0x66] (AutoSaveManager None)) ?w") auto
  from save_then_openFile [OF r n c x s p q, where n = "[0x66]" and am = None] a sv
  have 1: "r1 = Inr ()"
    and 2: "\<forall>y am2.
                 case openFile [0x66] am2 (updateContent y w1) of
                   (r2, am3, w2) \<Rightarrow>
                     r2 = Inr () \<and> editor_content w2 = [0x78] \<and>
                     am3 = map_option (setFileName [0x66]) am2"
    and 3: "\<forall>m2. currentFileName (setFileName [0x66] m2) = Some [0x66]"
    and 4: "openFile [0x66] None ?w = (Inr (), None, ?w)"
    by simp_all
  from 2 [THEN spec, of "[0x79, 0x79]", THEN spec,
      of "Some (setFileName [0x67] (AutoSaveManager None))"]
  have "case openFile [0x66] (Some (setFileName [0x67] (AutoSaveManager None)))
                (updateContent [0x79, 0x79] w1) of
           (r2, am3, w2) \<Rightarrow>
             r2 = Inr () \<and> editor_content w2 = [0x78] \<and>
             am3 = map_option (setFileName [0x66]) (Some (setFileName [0x67] (AutoSaveManager None)))" .
  with sv 1 3 4 show ?thesis
    by simp
qed

subsection \<open>C6: saving empty content\<close>

text \<open>
  C6. When the content accessor returns the empty string, \<open>save\<close> returns at once:
  the manager and the host, the stored item included, are exactly as before, whatever
  the store and the manager hold. No record is created and none is overwritten.
\<close>

theorem save_empty_content_noop:
  "getContent w = [] \<Longrightarrow>
   save m w = (Inr (), m, w) \<and> getSavedFiles (snd (snd (save m w))) = getSavedFiles w"
  by (simp add: save_empty)

theorem save_empty_content_noop_witness:
  "getContent world_ab = [] \<and>
   save (AutoSaveManager None) world_ab = (Inr (), AutoSaveManager None, world_ab) \<and>
   getSavedFiles (snd (snd (save (AutoSaveManager None) world_ab))) = getSavedFiles world_ab"
proof -
  have h: "getContent world_ab = []"
    by (simp add: world_ab_def fresh_world_def getContent_def)
  show ?thesis
    using h save_empty_content_noop [OF h, of "AutoSaveManager None"] by simp
qed

subsection \<open>C7: the current file name under renameFile\<close>

text \<open>
  C7, as stated, fails: with no current file name set, a successful rename calls
  \<open>getFileName\<close>, which generates a default name and stores it in the manager.
\<close>

theorem renameFile_binds_unset_name:
  "(case renameFile [0x61] [0x62] (Some (AutoSaveManager None)) world_a of
      (r, am, w') \<Rightarrow>
        r = Inr True \<and> currentFileName (AutoSaveManager None) = None \<and>
        map_option currentFileName am = Some (Some (default_name 1700000000001)))"
  by (simp add: renameFile_def world_a_def model_defs default_name_not_Nil)
     (simp add: default_name_def untitled_def)

text \<open>
  C7, amended. \<open>renameFile\<close> leaves the manager as it is unless it returns
  \<open>true\<close>. When it returns \<open>true\<close> and the manager holds a name: if that name
  is \<open>oldName\<close>, the manager is \<open>setFileName newName\<close> of the old one (bound to
  the trimmed \<open>newName\<close>, or unchanged when \<open>newName\<close> is blank), and otherwise
  it is unchanged. When it returns \<open>true\<close> and no name is set, the manager is bound
  to the default name generated from the clock (and then treated as before, should that
  name equal \<open>oldName\<close>). With no manager there is none afterwards.
\<close>

theorem renameFile_currentFileName:
  "(fst (renameFile oldName newName (Some m) w) \<noteq> Inr True \<longrightarrow>
      fst (snd (renameFile oldName newName (Some m) w)) = Some m) \<and>
   (fst (renameFile oldName newName (Some m) w) = Inr True \<and>
    currentFileName m = Some n \<and> n \<noteq> [] \<longrightarrow>
      fst (snd (renameFile oldName newName (Some m) w)) =
        Some (if n = oldName then setFileName newName m else m)) \<and>
   (fst (renameFile oldName newName (Some m) w) = Inr True \<and> currentFileName m = None \<longrightarrow>
      fst (snd (renameFile oldName newName (Some m) w)) =
        Some (if default_name (clock w (Suc (reads w))) = oldName
              then setFileName newName
                     (m\<lparr>currentFileName := Some (default_name (clock w (Suc (reads w))))\<rparr>)
              else m\<lparr>currentFileName := Some (default_name (clock w (Suc (reads w))))\<rparr>)) \<and>
   fst (snd (renameFile oldName newName None w)) = None"
proof (intro conjI impI)
  assume "fst (renameFile oldName newName (Some m) w) \<noteq> Inr True"
  then show "fst (snd (renameFile oldName newName (Some m) w)) = Some m"
    by (simp add: renameFile_not_True)
next
  assume "fst (renameFile oldName newName (Some m) w) = Inr True \<and>
    currentFileName m = Some n \<and> n \<noteq> []"
  then show "fst (snd (renameFile oldName newName (Some m) w)) =
        Some (if n = oldName then setFileName newName m else m)"
    by (simp add: renameFile_manager(1))
next
  assume "fst (renameFile oldName newName (Some m) w) = Inr True \<and> currentFileName m = None"
  then show "fst (snd (renameFile oldName newName (Some m) w)) =
        Some (if default_name (clock w (Suc (reads w))) = oldName
              then setFileName newName
                     (m\<lparr>currentFileName := Some (default_name (clock w (Suc (reads w))))\<rparr>)
              else m\<lparr>currentFileName := Some (default_name (clock w (Suc (reads w))))\<rparr>)"
    by (simp add: renameFile_manager(2))
next
  show "fst (snd (renameFile oldName newName None w)) = None"
  proof (cases "fst (renameFile oldName newName None w) = Inr True")
    case False
    then show ?thesis by (simp add: renameFile_not_True)
  next
    case True
    then obtain files where "oldName \<noteq> newName" "getSavedFiles w = Inr files"
        "truthy (get_property files oldName)"
        "quota w (Serialized (renamed files oldName newName (clock w (reads w))))"
      by (auto simp: renameFile_True_iff)
    from renameFile_written [OF this, of None] show ?thesis by simp
  qed
qed

theorem renameFile_currentFileName_witness:
  "fst (snd (renameFile [0x61] [0x61] (Some (AutoSaveManager None)) world_a)) =
     Some (AutoSaveManager None) \<and>
   fst (snd (renameFile [0x61] [0x20, 0x62] (Some (setFileName [0x61] (AutoSaveManager None))) world_a)) =
     Some (setFileName [0x62] (AutoSaveManager None)) \<and>
   fst (snd (renameFile [0x61] [0x62] (Some (setFileName [0x63] (AutoSaveManager None))) world_a)) =
     Some (setFileName [0x63] (AutoSaveManager None)) \<and>
   fst (snd (renameFile [0x61] [0x62] (Some (AutoSaveManager None)) world_a)) =
     Some (AutoSaveManager None\<lparr>currentFileName := Some (default_name 1700000000001)\<rparr>)"
proof -
  have t: "fst (renameFile [0x61] [0x20, 0x62] (Some m) world_a) = Inr True"
          "fst (renameFile [0x61] [0x62] (Some m) world_a) = Inr True"
          "fst (renameFile [0x61] [0x61] (Some m) world_a) \<noteq> Inr True" for m
    by (simp_all add: renameFile_True_iff world_a_def fresh_world_def getSavedFiles_storage)
  have n: "currentFileName (setFileName [0x61] (AutoSaveManager None)) = Some [0x61]"
          "currentFileName (setFileName [0x63] (AutoSaveManager None)) = Some [0x63]"
          "currentFileName (AutoSaveManager None) = None"
    by (simp_all add: setFileName_def AutoSaveManager_def trim_def trimStart_def trimEnd_def
        isWhiteSpace_def)
  have c: "clock world_a (Suc (reads world_a)) = 1700000000001"
    by (simp add: world_a_def fresh_world_def)
  have d: "default_name 1700000000001 \<noteq> [0x61]"
    by (simp add: default_name_def untitled_def)
  have s: "setFileName [0x20, 0x62] (setFileName [0x61] (AutoSaveManager None)) =
           setFileName [0x62] (AutoSaveManager None)"
    by (simp add: setFileName_def AutoSaveManager_def trim_def trimStart_def trimEnd_def
        isWhiteSpace_def)
  show ?thesis
    using
      renameFile_currentFileName [where oldName = "[0x61]" and newName = "[0x61]"
        and m = "AutoSaveManager None" and w = world_a]
      renameFile_currentFileName [where oldName = "[0x61]" and newName = "[0x20, 0x62]"
        and m = "setFileName [0x61] (AutoSaveManager None)" and w = world_a and n = "[0x61]"]
      renameFile_currentFileName [where oldName = "[0x61]" and newName = "[0x62]"
        and m = "setFileName [0x63] (AutoSaveManager None)" and w = world_a and n = "[0x63]"]
      renameFile_currentFileName [where oldName = "[0x61]" and newName = "[0x62]"
        and m = "AutoSaveManager None" and w = world_a]
    by (simp add: t n c d s)
qed

subsection \<open>C8: at most one live timer\<close>




subsection \<open>C9: the current file name is never blank\<close>

text \<open>
  C9. The current file name is unset or not blank: this holds of a new manager, is
  kept by every call, and so holds after every sequence of calls. \<open>setFileName\<close>
  leaves the manager unchanged on a blank name and otherwise binds the trimmed name,
  which is not blank; \<open>getFileName\<close> on an unset name binds and returns a generated
  name that is not blank.
\<close>

theorem currentFileName_never_blank:
  "fileName_ok (AutoSaveManager opt) \<and>
   (fileName_ok m \<longrightarrow> fileName_ok (fst (exec c (m, w)))) \<and>
   fileName_ok (fst (run cs (AutoSaveManager opt, w))) \<and>
   (blank name \<longrightarrow> setFileName name m = m) \<and>
   (\<not> blank name \<longrightarrow>
      currentFileName (setFileName name m) = Some (trim name) \<and> \<not> blank (trim name)) \<and>
   (currentFileName m = None \<longrightarrow>
      (case getFileName m w of
         (n, m', w') \<Rightarrow> currentFileName m' = Some n \<and> \<not> blank n))"
proof -
  have init: "fileName_ok (AutoSaveManager opt)"
    by (simp add: fileName_ok_def AutoSaveManager_def)
  have step: "fileName_ok m \<longrightarrow> fileName_ok (fst (exec c (m, w)))"
    by (simp add: fileName_ok_exec)
  have all: "fileName_ok (fst (run cs (AutoSaveManager opt, w)))"
    by (rule fileName_ok_run) (simp add: init)
  have ign: "blank name \<longrightarrow> setFileName name m = m"
    by (simp add: setFileName_def trim_Nil_iff)
  have set: "\<not> blank name \<longrightarrow>
      currentFileName (setFileName name m) = Some (trim name) \<and> \<not> blank (trim name)"
  proof
    assume n: "\<not> blank name"
    then have "name \<noteq> []" by (auto simp: blank_def)
    with n show "currentFileName (setFileName name m) = Some (trim name) \<and> \<not> blank (trim name)"
      by (simp add: setFileName_def trim_Nil_iff not_blank_trim)
  qed
  have nb: "\<not> blank (default_name t)" for t
    using default_name_trim [of t] default_name_not_Nil [of t]
    by (simp add: trim_Nil_iff [symmetric])
  have get: "currentFileName m = None \<longrightarrow>
      (case getFileName m w of
         (n, m', w') \<Rightarrow> currentFileName m' = Some n \<and> \<not> blank n)"
    by (simp add: getFileName_unset nb)
  from init step all ign set get show ?thesis by blast
qed

theorem currentFileName_never_blank_witness:
  "fileName_ok (AutoSaveManager None) \<and>
   fileName_ok (fst (exec (SetFileName [0x20, 0x61]) (AutoSaveManager None, fresh_world))) \<and>
   blank [0x20, 0x09] \<and> 
   setFileName [0x20, 0x09] (AutoSaveManager None) = AutoSaveManager None \<and>
   \<not> blank [0x20, 0x61, 0x20] \<and>
   currentFileName (setFileName [0x20, 0x61, 0x20] (AutoSaveManager None)) = Some [0x61] \<and>
   currentFileName (AutoSaveManager None) = None \<and>
   currentFileName (fst (snd (getFileName (AutoSaveManager None) fresh_world))) =
     Some (default_name 1700000000000) \<and>
   \<not> blank (default_name 1700000000000)"
proof -
  have b1: "blank [0x20, 0x09]" and b2: "\<not> blank [0x20, 0x61, 0x20]"
    by (simp_all add: blank_def isWhiteSpace_def)
  have t: "trim [0x20, 0x61, 0x20] = [0x61]"
    by (simp add: trim_def trimStart_def trimEnd_def isWhiteSpace_def)
  have u: "currentFileName (AutoSaveManager None) = None"
    by (simp add: AutoSaveManager_def)
  have g: "getFileName (AutoSaveManager None) fresh_world =
     (default_name 1700000000000,
      AutoSaveManager None\<lparr>currentFileName := Some (default_name 1700000000000)\<rparr>,
      fresh_world\<lparr>reads := Suc 0\<rparr>)"
    by (simp add: getFileName_unset u) (simp add: fresh_world_def)
  from currentFileName_never_blank [where opt = None and m = "AutoSaveManager None"
      and c = "SetFileName [0x20, 0x61]" and w = fresh_world and name = "[0x20, 0x09]"]
    currentFileName_never_blank [where opt = None and m = "AutoSaveManager None"
      and w = fresh_world and name = "[0x20, 0x61, 0x20]"]
    b1 b2 t u g
  show ?thesis
    by simp
qed

subsection \<open>C10: renaming onto an existing name\<close>




end
